theory Spec2Isabelle
  imports Complex_Main "HOL-Library.Log_Nat"
begin

section \<open>Python numbers: binary64 arithmetic and \<open>round\<close>\<close>

text \<open>
  \<open>scale_coordinates\<close> computes with Python floats.  A finite float is modelled by the
  rational number it denotes; every arithmetic operation of the source is the exact
  operation followed by \<open>fl\<close>, the rounding of IEEE 754 binary64 (53 significant bits,
  round to nearest, ties to even).  The exponent range of binary64 is not modelled: the
  model is exact as long as every intermediate magnitude lies between \<open>2^-1022\<close> and
  \<open>2^1024\<close>, which holds for every resolution and coordinate below \<open>2^1000\<close>.
\<close>

definition py_round :: "rat \<Rightarrow> int" where
  \<comment> \<open>\<open>round(f)\<close> of a float: nearest integer, a tie goes to the even neighbour\<close>
  "py_round q =
     (let f = \<lfloor>q\<rfloor>; d = q - of_int f
      in if d < 1 / 2 then f
         else if 1 / 2 < d then f + 1
         else if even f then f else f + 1)"

definition ilog2 :: "rat \<Rightarrow> int" where
  \<comment> \<open>for \<open>0 < z\<close>: the exponent \<open>e\<close> with \<open>2^e \<le> z < 2^(e+1)\<close>\<close>
  "ilog2 z =
     (if 1 \<le> z then bitlen \<lfloor>z\<rfloor> - 1
      else (let k = bitlen \<lfloor>1 / z\<rfloor> - 1
            in if z * 2 ^ nat k = 1 then - k else - k - 1))"

definition fl :: "rat \<Rightarrow> rat" where
  \<comment> \<open>the binary64 value nearest to \<open>z\<close>\<close>
  "fl z =
     (if z = 0 then 0
      else (let e = ilog2 \<bar>z\<bar>;
                u = 2 powi (e - 52)
            in sgn z * of_int (py_round (\<bar>z\<bar> / u)) * u))"

definition truediv :: "int \<Rightarrow> int \<Rightarrow> rat" where
  \<comment> \<open>\<open>a / b\<close> of two ints with \<open>b \<noteq> 0\<close>: correctly rounded\<close>
  "truediv a b = fl (of_int a / of_int b)"

definition fsub :: "rat \<Rightarrow> rat \<Rightarrow> rat" where
  "fsub a b = fl (a - b)"

definition int_div_float :: "int \<Rightarrow> rat \<Rightarrow> rat" where
  \<comment> \<open>\<open>x / f\<close> with \<open>x\<close> an int: \<open>x\<close> is converted to a float first\<close>
  "int_div_float x f = fl (fl (of_int x) / f)"

definition int_mul_float :: "int \<Rightarrow> rat \<Rightarrow> rat" where
  "int_mul_float x f = fl (fl (of_int x) * f)"

section \<open>Data model of \<open>computer.py\<close>\<close>

record Resolution =
  width :: int
  height :: int

datatype ScreenType = MONITOR | ADB

record Screen =
  index :: int
  name :: "string option"
  screen_type :: ScreenType
  screen_size :: Resolution
  layout :: "string option"
  position :: "string option"

definition XGA :: Resolution where "XGA = \<lparr>width = 1024, height = 768\<rparr>"
definition WXGA :: Resolution where "WXGA = \<lparr>width = 1280, height = 800\<rparr>"
definition FWXGA :: Resolution where "FWXGA = \<lparr>width = 1366, height = 768\<rparr>"

definition MAX_SCALING_TARGETS :: "(string \<times> Resolution) list" where
  \<comment> \<open>a dict literal: iteration follows insertion order\<close>
  "MAX_SCALING_TARGETS = [(''XGA'', XGA), (''WXGA'', WXGA), (''FWXGA'', FWXGA)]"

datatype ScalingSource = COMPUTER | API

text \<open>A value an actor may pass as a component of \<open>coordinate\<close>, and the argument itself.\<close>

datatype pyval = PyInt int | PyOther

datatype coord = Seq "pyval list" | NotSeq

text \<open>
  The calls made to the platform libraries (\<open>pyautogui\<close>, the \<open>adbutils\<close> device,
  \<open>ImageGrab\<close>).  A tool keeps the list of the calls that completed.  \<open>AdbInputTap x y\<close>
  is \<open>shell("input tap x y")\<close>, \<open>AdbInputKeyevent s\<close> is \<open>shell("input keyevent s")\<close> and
  \<open>AdbSwipe\<close> omits the constant duration.
\<close>

datatype call =
    MoveTo int int
  | DragTo int int
  | GetPosition
  | KeyDown string
  | KeyUp string
  | Typewrite string
  | Click
  | AdbSwipe int int int int
  | AdbInputTap int int
  | AdbInputKeyevent string
  | AdbSendKeys string
  | AdbScreenshot
  | Grab

text \<open>
  The message of a \<open>ToolError\<close>, one constructor for each \<open>raise ToolError(...)\<close> of the
  source, carrying the values the message is formatted from.
\<close>

datatype tool_error =
    CoordinateRequired string
  | TextNotAccepted string
  | NotLength2 coord
  | NotNonNegInts coord
  | TextRequired string
  | CoordinateNotAccepted string
  | NotSupportedForADB string
  | InvalidAction string
  | OutOfBounds int int
  | ScreenshotFailed

datatype error =
    ToolError tool_error
  | ZeroDivisionError
  | UnboundLocalError string
  | RuntimeError string
  | Failure call

text \<open>The text of a \<open>ToolResult.output\<close>, one constructor for each format string.\<close>

datatype output_text =
    MovedMouse int int
  | Dragged int int int int
  | PressedKeys string
  | Typed string
  | CursorAt int int
  | Performed string

record ToolResult =
  result_output :: "output_text option"
  base64_image :: "string option"

record ComputerTool =
  self_width :: int
  self_height :: int
  scaling_enabled :: bool
  adb_device :: "string option"
  adb_mouse :: "int \<times> int"
  offset_x :: int
  offset_y :: int
  selected_screen :: Screen
  target_dimension :: "Resolution option"
  backend_log :: "call list"

section \<open>\<open>ComputerTool.scale_coordinates\<close>\<close>

definition aspect_matches :: "rat \<Rightarrow> Resolution \<Rightarrow> bool" where
  \<comment> \<open>\<open>abs(dimension.width / dimension.height - ratio) < 0.02\<close>\<close>
  "aspect_matches ratio dimension \<longleftrightarrow>
     \<bar>fsub (truediv (width dimension) (height dimension)) ratio\<bar> < fl (1 / 50)"

fun scan_targets :: "rat \<Rightarrow> int \<Rightarrow> (string \<times> Resolution) list \<Rightarrow> Resolution option" where
  \<comment> \<open>the \<open>for\<close> loop: \<open>target_dimension\<close> is \<open>None\<close> until the iteration that ends the loop\<close>
  "scan_targets ratio w [] = None"
| "scan_targets ratio w ((target_name, dimension) # rest) =
     (if aspect_matches ratio dimension
      then (if width dimension < w then Some dimension else None)
      else scan_targets ratio w rest)"

definition select_target :: "int \<Rightarrow> int \<Rightarrow> Resolution" where
  \<comment> \<open>the target after the loop and the fallback, for a native resolution with \<open>h \<noteq> 0\<close>\<close>
  "select_target w h =
     (case scan_targets (truediv w h) w MAX_SCALING_TARGETS of
        None \<Rightarrow> WXGA
      | Some dimension \<Rightarrow> dimension)"

definition scale_coordinates ::
  "ComputerTool \<Rightarrow> ScalingSource \<Rightarrow> int \<Rightarrow> int \<Rightarrow> (error + int \<times> int) \<times> ComputerTool" where
  "scale_coordinates self source x y =
     (if \<not> scaling_enabled self then (Inr (x, y), self)
      else if self_height self = 0 then (Inl ZeroDivisionError, self)
      else
        let target = select_target (self_width self) (self_height self);
            self1 = self\<lparr>target_dimension := Some target\<rparr>
        in if self_width self = 0 then (Inl ZeroDivisionError, self1)
           else
             let x_scaling_factor = truediv (width target) (self_width self);
                 y_scaling_factor = truediv (height target) (self_height self)
             in if source = API then
                  (if self_width self < x \<or> self_height self < y
                   then (Inl (ToolError (OutOfBounds x y)), self1)
                   else if x_scaling_factor = 0 \<or> y_scaling_factor = 0
                   then (Inl ZeroDivisionError, self1)
                   else (Inr (py_round (int_div_float x x_scaling_factor),
                              py_round (int_div_float y y_scaling_factor)), self1))
                else (Inr (py_round (int_mul_float x x_scaling_factor),
                           py_round (int_mul_float y y_scaling_factor)), self1))"

section \<open>The platform libraries\<close>

text \<open>
  Input injection and screen capture are done by libraries outside the repository.  What
  they do is a parameter of the model: whether a call raises (given the calls completed so
  far), where the pointer is, where the selected monitor lies on the virtual desktop, and
  the encoded file a capture leaves behind (\<open>None\<close> when the file does not exist).
\<close>

record env =
  fails :: "call list \<Rightarrow> call \<Rightarrow> bool"
  pointer :: "call list \<Rightarrow> int \<times> int"
  monitor_origin :: "int \<times> int"
  saved_file :: "call list \<Rightarrow> string option"

definition invoke :: "env \<Rightarrow> call \<Rightarrow> ComputerTool \<Rightarrow> (error + unit) \<times> ComputerTool" where
  \<comment> \<open>one library call: it raises, or it completes and is logged\<close>
  "invoke e c self =
     (if fails e (backend_log self) c then (Inl (Failure c), self)
      else (Inr (), self\<lparr>backend_log := backend_log self @ [c]\<rparr>))"

fun invoke_all :: "env \<Rightarrow> call list \<Rightarrow> ComputerTool \<Rightarrow> (error + unit) \<times> ComputerTool" where
  \<comment> \<open>a \<open>for\<close> loop of library calls: the first exception leaves the loop\<close>
  "invoke_all e [] self = (Inr (), self)"
| "invoke_all e (c # cs) self =
     (case invoke e c self of
        (Inl err, self1) \<Rightarrow> (Inl err, self1)
      | (Inr u, self1) \<Rightarrow> invoke_all e cs self1)"

section \<open>Strings\<close>

fun split_on :: "char \<Rightarrow> string \<Rightarrow> string list" where
  \<comment> \<open>\<open>s.split(sep)\<close> for a one-character separator\<close>
  "split_on sep [] = [[]]"
| "split_on sep (c # cs) =
     (if c = sep then [] # split_on sep cs
      else (c # hd (split_on sep cs)) # tl (split_on sep cs))"

definition is_space :: "char \<Rightarrow> bool" where
  "is_space c \<longleftrightarrow> (of_char c :: nat) \<in> {9, 10, 11, 12, 13, 28, 29, 30, 31, 32}"

definition strip :: "string \<Rightarrow> string" where
  "strip s = rev (dropWhile is_space (rev (dropWhile is_space s)))"

definition lower_char :: "char \<Rightarrow> char" where
  "lower_char c =
     (if 65 \<le> (of_char c :: nat) \<and> (of_char c :: nat) \<le> 90
      then char_of ((of_char c :: nat) + 32) else c)"

definition lower :: "string \<Rightarrow> string" where
  \<comment> \<open>\<open>s.lower()\<close> on ASCII text\<close>
  "lower s = map lower_char s"

fun join :: "string \<Rightarrow> string list \<Rightarrow> string" where
  "join sep [] = []"
| "join sep [s] = s"
| "join sep (s # t # ss) = s @ sep @ join sep (t # ss)"

definition key_conversion :: "(string \<times> string) list" where
  "key_conversion =
     [(''Page_Down'', ''pagedown''), (''Page_Up'', ''pageup''), (''Super_L'', ''win'')]"

definition convert_key :: "string \<Rightarrow> string" where
  \<comment> \<open>\<open>key = self.key_conversion.get(key.strip(), key.strip()); key = key.lower()\<close>\<close>
  "convert_key key =
     lower (case map_of key_conversion (strip key) of
              None \<Rightarrow> strip key
            | Some k \<Rightarrow> k)"

section \<open>\<open>ComputerTool.screenshot\<close>\<close>

definition screenshot :: "env \<Rightarrow> ComputerTool \<Rightarrow> (error + ToolResult) \<times> ComputerTool" where
  \<comment> \<open>the capture itself is the library's; the tool's own state changes are those of
      \<open>screenshot_from_monitor\<close>: the offsets, and the target when there is none yet\<close>
  "screenshot e self =
     (if screen_type (selected_screen self) = ADB then
        (case invoke e AdbScreenshot self of
           (Inl err, self1) \<Rightarrow> (Inl err, self1)
         | (Inr u, self1) \<Rightarrow>
             (case saved_file e (backend_log self1) of
                None \<Rightarrow> (Inl (ToolError ScreenshotFailed), self1)
              | Some img \<Rightarrow> (Inr \<lparr>result_output = None, base64_image = Some img\<rparr>, self1)))
      else
        (case invoke e Grab self of
           (Inl err, self1) \<Rightarrow> (Inl err, self1)
         | (Inr u, self1) \<Rightarrow>
             let self2 = self1\<lparr>offset_x := fst (monitor_origin e),
                               offset_y := snd (monitor_origin e),
                               target_dimension :=
                                 (case target_dimension self1 of
                                    None \<Rightarrow> Some WXGA
                                  | Some d \<Rightarrow> Some d)\<rparr>
             in (case saved_file e (backend_log self2) of
                   None \<Rightarrow> (Inl (ToolError ScreenshotFailed), self2)
                 | Some img \<Rightarrow> (Inr \<lparr>result_output = None, base64_image = Some img\<rparr>, self2))))"

section \<open>\<open>ComputerTool.__call__\<close>\<close>

text \<open>
  The dispatcher returns a \<open>ToolResult\<close> or raises; either way the tool it leaves behind is
  part of the result.  \<open>text\<close> is a \<open>str\<close> or \<open>None\<close>, as the signature declares it.
\<close>

definition result :: "output_text \<Rightarrow> error + ToolResult" where
  "result out = Inr \<lparr>result_output = Some out, base64_image = None\<rparr>"

definition nonneg_int :: "pyval \<Rightarrow> bool" where
  \<comment> \<open>\<open>isinstance(i, int) and i >= 0\<close>\<close>
  "nonneg_int v = (case v of PyInt i \<Rightarrow> 0 \<le> i | PyOther \<Rightarrow> False)"

definition the_int :: "pyval \<Rightarrow> int" where
  "the_int v = (case v of PyInt i \<Rightarrow> i | PyOther \<Rightarrow> 0)"

definition move_or_drag ::
  "env \<Rightarrow> ComputerTool \<Rightarrow> string \<Rightarrow> int \<Rightarrow> int \<Rightarrow> (error + ToolResult) \<times> ComputerTool" where
  \<comment> \<open>lines 231 to 245: the two actions that take a coordinate, at the native point\<close>
  "move_or_drag e self action x y =
     (if action = ''mouse_move'' then
        (if adb_device self \<noteq> None
         then (result (MovedMouse x y), self\<lparr>adb_mouse := (x, y)\<rparr>)
         else (case invoke e (MoveTo x y) self of
                 (Inl err, self1) \<Rightarrow> (Inl err, self1)
               | (Inr u, self1) \<Rightarrow> (result (MovedMouse x y), self1)))
      else
        (if adb_device self \<noteq> None then
           (case invoke e (AdbSwipe (fst (adb_mouse self)) (snd (adb_mouse self)) x y) self of
              (Inl err, self1) \<Rightarrow> (Inl err, self1)
            | (Inr u, self1) \<Rightarrow>
                \<comment> \<open>\<open>current_x\<close> is assigned on the other branch only\<close>
                (Inl (UnboundLocalError ''current_x''), self1\<lparr>adb_mouse := (x, y)\<rparr>))
         else
           (case invoke e GetPosition self of
              (Inl err, self1) \<Rightarrow> (Inl err, self1)
            | (Inr u, self1) \<Rightarrow>
                let current = pointer e (backend_log self)
                in (case invoke e (DragTo x y) self1 of
                      (Inl err, self2) \<Rightarrow> (Inl err, self2)
                    | (Inr u, self2) \<Rightarrow>
                        (result (Dragged (fst current) (snd current) x y), self2)))))"

definition press_keys ::
  "env \<Rightarrow> ComputerTool \<Rightarrow> string \<Rightarrow> (error + ToolResult) \<times> ComputerTool" where
  \<comment> \<open>lines 255 to 273: the \<open>key\<close> action\<close>
  "press_keys e self text =
     (let keys = split_on CHR ''+'' text
      in if adb_device self \<noteq> None then
           (case invoke_all e
                   (map (\<lambda>key. AdbInputKeyevent (join '' '' keys)) keys) self of
              (Inl err, self1) \<Rightarrow> (Inl err, self1)
            | (Inr u, self1) \<Rightarrow> (result (PressedKeys text), self1))
         else
           (case invoke_all e (map (\<lambda>key. KeyDown (convert_key key)) keys) self of
              (Inl err, self1) \<Rightarrow> (Inl err, self1)
            | (Inr u, self1) \<Rightarrow>
                (case invoke_all e (map (\<lambda>key. KeyUp (convert_key key)) (rev keys)) self1 of
                   (Inl err, self2) \<Rightarrow> (Inl err, self2)
                 | (Inr u, self2) \<Rightarrow> (result (PressedKeys text), self2))))"

definition type_text ::
  "env \<Rightarrow> ComputerTool \<Rightarrow> string \<Rightarrow> (error + ToolResult) \<times> ComputerTool" where
  \<comment> \<open>lines 275 to 283: the \<open>type\<close> action\<close>
  "type_text e self text =
     (case invoke e (if adb_device self \<noteq> None then AdbSendKeys text else Typewrite text) self of
        (Inl err, self1) \<Rightarrow> (Inl err, self1)
      | (Inr u, self1) \<Rightarrow>
          (case screenshot e self1 of
             (Inl err, self2) \<Rightarrow> (Inl err, self2)
           | (Inr shot, self2) \<Rightarrow>
               (Inr \<lparr>result_output = Some (Typed text), base64_image = base64_image shot\<rparr>, self2)))"

definition cursor_position :: "env \<Rightarrow> ComputerTool \<Rightarrow> (error + ToolResult) \<times> ComputerTool" where
  \<comment> \<open>lines 300 to 306\<close>
  "cursor_position e self =
     (if adb_device self \<noteq> None then
        (case scale_coordinates self COMPUTER (fst (adb_mouse self)) (snd (adb_mouse self)) of
           (Inl err, self1) \<Rightarrow> (Inl err, self1)
         | (Inr (x, y), self1) \<Rightarrow> (result (CursorAt x y), self1))
      else
        (case invoke e GetPosition self of
           (Inl err, self1) \<Rightarrow> (Inl err, self1)
         | (Inr u, self1) \<Rightarrow>
             (case scale_coordinates self1 COMPUTER
                     (fst (pointer e (backend_log self))) (snd (pointer e (backend_log self))) of
                (Inl err, self2) \<Rightarrow> (Inl err, self2)
              | (Inr (x, y), self2) \<Rightarrow> (result (CursorAt x y), self2))))"

definition click :: "env \<Rightarrow> ComputerTool \<Rightarrow> string \<Rightarrow> (error + ToolResult) \<times> ComputerTool" where
  \<comment> \<open>lines 307 to 320: the four click actions\<close>
  "click e self action =
     (if action = ''left_click'' then
        (case invoke e
                (if adb_device self \<noteq> None
                 then AdbInputTap (fst (adb_mouse self)) (snd (adb_mouse self))
                 else Click) self of
           (Inl err, self1) \<Rightarrow> (Inl err, self1)
         | (Inr u, self1) \<Rightarrow> (result (Performed action), self1))
      else if action = ''right_click'' then
        (Inl (ToolError (NotSupportedForADB ''right_click'')), self)
      else if action = ''middle_click'' then
        (Inl (ToolError (NotSupportedForADB ''middle_click'')), self)
      else if action = ''double_click'' then
        (Inl (ToolError (NotSupportedForADB ''double_click'')), self)
      else (result (Performed action), self))"

definition call ::
  "env \<Rightarrow> ComputerTool \<Rightarrow> string \<Rightarrow> string option \<Rightarrow> coord option
     \<Rightarrow> (error + ToolResult) \<times> ComputerTool" where
  "call e self action text coordinate =
     (if action \<in> set [''mouse_move'', ''left_click_drag''] then
        (case coordinate of
           None \<Rightarrow> (Inl (ToolError (CoordinateRequired action)), self)
         | Some c \<Rightarrow>
             if text \<noteq> None then (Inl (ToolError (TextNotAccepted action)), self)
             else
               (case c of
                  NotSeq \<Rightarrow> (Inl (ToolError (NotLength2 c)), self)
                | Seq vs \<Rightarrow>
                    if length vs \<noteq> 2 then (Inl (ToolError (NotLength2 c)), self)
                    else if \<not> list_all nonneg_int vs
                    then (Inl (ToolError (NotNonNegInts c)), self)
                    else
                      (case scale_coordinates self API (the_int (vs ! 0)) (the_int (vs ! 1)) of
                         (Inl err, self1) \<Rightarrow> (Inl err, self1)
                       | (Inr (x, y), self1) \<Rightarrow>
                           move_or_drag e self1 action
                             (x + offset_x self1) (y + offset_y self1))))
      else if action \<in> set [''key'', ''type''] then
        (case text of
           None \<Rightarrow> (Inl (ToolError (TextRequired action)), self)
         | Some t \<Rightarrow>
             if coordinate \<noteq> None then (Inl (ToolError (CoordinateNotAccepted action)), self)
             else if action = ''key'' then press_keys e self t
             else type_text e self t)
      else if action \<in> set [''left_click'', ''right_click'', ''double_click'',
                              ''middle_click'', ''screenshot'', ''cursor_position''] then
        (if text \<noteq> None then (Inl (ToolError (TextNotAccepted action)), self)
         else if coordinate \<noteq> None
         then (Inl (ToolError (CoordinateNotAccepted action)), self)
         else if action = ''screenshot'' then screenshot e self
         else if action = ''cursor_position'' then cursor_position e self
         else click e self action)
      else (Inl (ToolError (InvalidAction action)), self))"

section \<open>\<open>get_screen_details\<close> and the construction of a tool\<close>

text \<open>
  What \<open>screeninfo.get_monitors()\<close> reports of a monitor, and what \<open>adbutils\<close> reports of
  a device; \<open>window_size()\<close> is a query of its own and may raise.
\<close>

record Monitor =
  mon_x :: int
  mon_y :: int
  mon_width :: int
  mon_height :: int
  is_primary :: bool

record AdbDevice =
  serialno :: string
  window_size :: "error + int \<times> int"

fun monitor_loop ::
  "int \<Rightarrow> int \<Rightarrow> Monitor list \<Rightarrow> Screen list \<Rightarrow> int \<Rightarrow> Screen list \<times> int" where
  \<comment> \<open>\<open>for i, screen in enumerate(sorted_screens)\<close>, with \<open>n = len(sorted_screens)\<close>\<close>
  "monitor_loop n i [] screen_details primary_index = (screen_details, primary_index)"
| "monitor_loop n i (screen # rest) screen_details primary_index =
     (let lay = (if i = 0 then ''Left''
                 else if i = n - 1 then ''Right''
                 else ''Center'');
          pos = (if is_primary screen then ''Primary'' else ''Secondary'');
          screen_info = \<lparr>index = i, name = None, screen_type = MONITOR,
                         screen_size = \<lparr>width = mon_width screen, height = mon_height screen\<rparr>,
                         layout = Some lay, position = Some pos\<rparr>
      in monitor_loop n (i + 1) rest (screen_details @ [screen_info])
           (if is_primary screen then i else primary_index))"

fun adb_loop :: "AdbDevice list \<Rightarrow> Screen list \<Rightarrow> error + Screen list" where
  \<comment> \<open>\<open>for device in adb.device_list()\<close>\<close>
  "adb_loop [] screen_details = Inr screen_details"
| "adb_loop (device # rest) screen_details =
     (case window_size device of
        Inl err \<Rightarrow> Inl err
      | Inr (w, h) \<Rightarrow>
          adb_loop rest
            (screen_details @
               [\<lparr>index = 0, name = Some (serialno device), screen_type = ADB,
                 screen_size = \<lparr>width = w, height = h\<rparr>,
                 layout = None, position = None\<rparr>]))"

definition get_screen_details ::
  "error + Monitor list \<Rightarrow> error + AdbDevice list \<Rightarrow> error + Screen list \<times> int" where
  \<comment> \<open>the two arguments are the outcomes of \<open>get_monitors()\<close> and of \<open>adb.device_list()\<close>\<close>
  "get_screen_details monitors devices =
     (case monitors of
        Inl err \<Rightarrow> Inl err
      | Inr screens \<Rightarrow>
          let sorted_screens = sort_key mon_x screens;
              (screen_details, primary_index) =
                 monitor_loop (int (length sorted_screens)) 0 sorted_screens [] 0
          in (case devices of
                Inl err \<Rightarrow> Inl err
              | Inr ds \<Rightarrow>
                  (case adb_loop ds screen_details of
                     Inl err \<Rightarrow> Inl err
                   | Inr all_details \<Rightarrow> Inr (all_details, primary_index))))"

definition new_tool :: "Screen \<Rightarrow> ComputerTool" where
  \<comment> \<open>the attributes \<open>__init__\<close> assigns, with the class attributes \<open>_scaling_enabled = True\<close>,
      \<open>_adb_device = None\<close> and \<open>_adb_mouse = (0, 0)\<close>\<close>
  "new_tool selected =
     \<lparr>self_width = width (screen_size selected),
      self_height = height (screen_size selected),
      scaling_enabled = True, adb_device = None, adb_mouse = (0, 0),
      offset_x = 0, offset_y = 0, selected_screen = selected,
      target_dimension = None, backend_log = []\<rparr>"

definition init :: "Screen \<Rightarrow> error + AdbDevice list \<Rightarrow> error + ComputerTool" where
  \<comment> \<open>\<open>ComputerTool.__init__\<close>; the second argument is the outcome of \<open>adb.device_list()\<close>\<close>
  "init selected devices =
     (let self = new_tool selected
      in if screen_type selected = ADB then
           (case devices of
              Inl err \<Rightarrow> Inl err
            | Inr ds \<Rightarrow>
                if ds = [] then Inl (RuntimeError ''No Android devices found via ADB'')
                else
                  (case find (\<lambda>d. Some (serialno d) = name selected) ds of
                     None \<Rightarrow> Inl (RuntimeError ''No Android device found with serial number'')
                   | Some d \<Rightarrow> Inr (self\<lparr>adb_device := Some (serialno d)\<rparr>)))
         else Inr self)"

section \<open>Notions used in the statements\<close>

definition out_of_bounds :: "(error + int \<times> int) \<times> ComputerTool \<Rightarrow> bool" where
  \<comment> \<open>the conversion raised \<open>ToolError("Coordinates x, y are out of bounds")\<close>\<close>
  "out_of_bounds r = (case fst r of Inl (ToolError (OutOfBounds x y)) \<Rightarrow> True | _ \<Rightarrow> False)"

definition monitor_screen :: "int \<Rightarrow> int \<Rightarrow> Screen" where
  \<comment> \<open>the entry of a single native monitor\<close>
  "monitor_screen w h =
     \<lparr>index = 0, name = None, screen_type = MONITOR, screen_size = \<lparr>width = w, height = h\<rparr>,
      layout = Some ''Left'', position = Some ''Primary''\<rparr>"

definition adb_screen :: "string \<Rightarrow> int \<Rightarrow> int \<Rightarrow> Screen" where
  "adb_screen serial w h =
     \<lparr>index = 0, name = Some serial, screen_type = ADB, screen_size = \<lparr>width = w, height = h\<rparr>,
      layout = None, position = None\<rparr>"

definition monitor_tool :: "int \<Rightarrow> int \<Rightarrow> ComputerTool" where
  \<comment> \<open>a tool on the native backend\<close>
  "monitor_tool w h = new_tool (monitor_screen w h)"

definition adb_tool :: "string \<Rightarrow> int \<Rightarrow> int \<Rightarrow> ComputerTool" where
  \<comment> \<open>a tool on the remote backend, as \<open>__init__\<close> leaves it\<close>
  "adb_tool serial w h = (new_tool (adb_screen serial w h))\<lparr>adb_device := Some serial\<rparr>"

definition quiet_env :: env where
  \<comment> \<open>a platform on which no call raises\<close>
  "quiet_env = \<lparr>fails = (\<lambda>log c. False), pointer = (\<lambda>log. (0, 0)), monitor_origin = (0, 0),
     saved_file = (\<lambda>log. Some ''png'')\<rparr>"

definition argument_error :: "tool_error \<Rightarrow> bool" where
  \<comment> \<open>the messages of the argument checks of \<open>__call__\<close>, the unknown action included\<close>
  "argument_error m =
     (case m of
        CoordinateRequired a \<Rightarrow> True
      | TextNotAccepted a \<Rightarrow> True
      | NotLength2 c \<Rightarrow> True
      | NotNonNegInts c \<Rightarrow> True
      | TextRequired a \<Rightarrow> True
      | CoordinateNotAccepted a \<Rightarrow> True
      | InvalidAction a \<Rightarrow> True
      | NotSupportedForADB a \<Rightarrow> False
      | OutOfBounds x y \<Rightarrow> False
      | ScreenshotFailed \<Rightarrow> False)"

definition raises_argument_error :: "(error + 'a) \<times> ComputerTool \<Rightarrow> bool" where
  "raises_argument_error r =
     (case fst r of Inl (ToolError m) \<Rightarrow> argument_error m | _ \<Rightarrow> False)"

definition monitor_entry :: "int \<Rightarrow> Monitor \<Rightarrow> string \<Rightarrow> Screen" where
  \<comment> \<open>the entry built for the native monitor at position \<open>i\<close>, apart from its layout\<close>
  "monitor_entry i m lay =
     \<lparr>index = i, name = None, screen_type = MONITOR,
      screen_size = \<lparr>width = mon_width m, height = mon_height m\<rparr>,
      layout = Some lay, position = Some (if is_primary m then ''Primary'' else ''Secondary'')\<rparr>"

definition example_monitor :: "int \<Rightarrow> bool \<Rightarrow> Monitor" where
  "example_monitor x p = \<lparr>mon_x = x, mon_y = 0, mon_width = 1920, mon_height = 1080, is_primary = p\<rparr>"

definition key_downs :: "string \<Rightarrow> call list" where
  \<comment> \<open>the key-down calls of the first loop of the \<open>key\<close> action, in order\<close>
  "key_downs text = map (\<lambda>key. KeyDown (convert_key key)) (split_on CHR ''+'' text)"

definition key_ups :: "string \<Rightarrow> call list" where
  \<comment> \<open>the key-up calls of the second loop\<close>
  "key_ups text = map (\<lambda>key. KeyUp (convert_key key)) (rev (split_on CHR ''+'' text))"

definition held_keys :: "call list \<Rightarrow> string list" where
  \<comment> \<open>the keys pressed and not released by a sequence of completed calls\<close>
  "held_keys calls =
     foldl (\<lambda>held c. case c of KeyDown k \<Rightarrow> held @ [k] | KeyUp k \<Rightarrow> removeAll k held | _ \<Rightarrow> held)
       [] calls"

definition shift_fails :: env where
  \<comment> \<open>a platform on which pressing \<open>shift\<close> raises\<close>
  "shift_fails = quiet_env\<lparr>fails := (\<lambda>log c. c = KeyDown ''shift'')\<rparr>"

section \<open>Properties of the rounding\<close>

lemma floor_bitlen_bounds:
  fixes t :: rat
  assumes "1 \<le> t"
  defines "k \<equiv> nat (bitlen \<lfloor>t\<rfloor> - 1)"
  shows "2 ^ k \<le> t" and "t < 2 ^ Suc k" and "bitlen \<lfloor>t\<rfloor> - 1 = int k"
proof -
  from assms(1) have p: "0 < \<lfloor>t\<rfloor>" by linarith
  have b1: "1 \<le> bitlen \<lfloor>t\<rfloor>" using p by (simp add: bitlen_alt_def)
  then show kk: "bitlen \<lfloor>t\<rfloor> - 1 = int k" by (simp add: k_def)
  from bitlen_bounds[OF p] have lo: "2 ^ k \<le> \<lfloor>t\<rfloor>" and hi: "\<lfloor>t\<rfloor> < 2 ^ nat (bitlen \<lfloor>t\<rfloor>)"
    by (simp_all add: k_def)
  have "nat (bitlen \<lfloor>t\<rfloor>) = Suc k" using b1 by (simp add: k_def)
  with hi have hi': "\<lfloor>t\<rfloor> + 1 \<le> 2 ^ Suc k" by simp
  from lo have "(of_int (2 ^ k) :: rat) \<le> of_int \<lfloor>t\<rfloor>" by (simp only: of_int_le_iff)
  also have "\<dots> \<le> t" by simp
  finally show "2 ^ k \<le> t" by simp
  have "t < of_int (\<lfloor>t\<rfloor> + 1)" by linarith
  also from hi' have "\<dots> \<le> of_int (2 ^ Suc k)" by (simp only: of_int_le_iff)
  finally show "t < 2 ^ Suc k" by simp
qed

lemma ilog2_lower:
  assumes "0 < z"
  shows "2 powi (ilog2 z) \<le> z"
proof (cases "1 \<le> z")
  case True
  define k where "k = nat (bitlen \<lfloor>z\<rfloor> - 1)"
  note B = floor_bitlen_bounds[OF True, folded k_def]
  have "ilog2 z = int k" using True B(3) by (simp add: ilog2_def)
  then show ?thesis using B(1) by (simp add: power_int_def)
next
  case False
  define t where "t = 1 / z"
  define k where "k = nat (bitlen \<lfloor>t\<rfloor> - 1)"
  have t1: "1 \<le> t" using False assms by (simp add: t_def)
  note B = floor_bitlen_bounds[OF t1, folded k_def]
  have zt: "z = 1 / t" using assms by (simp add: t_def)
  have e: "ilog2 z = (if z * 2 ^ k = 1 then - int k else - int k - 1)"
    using False B(3) by (simp add: ilog2_def t_def[symmetric] Let_def)
  show ?thesis
  proof (cases "z * 2 ^ k = 1")
    case True
    then have "z = 1 / 2 ^ k" by (simp add: field_simps)
    moreover have "2 powi (- int k) = (1::rat) / 2 ^ k"
      by (simp add: power_int_minus field_simps)
    ultimately show ?thesis using e True by simp
  next
    case F: False
    have "1 / 2 ^ Suc k < 1 / t" using B(2) t1 by (simp add: field_simps)
    then have "1 / 2 ^ Suc k \<le> z" using zt by simp
    moreover have "2 powi (- int k - 1) = (1::rat) / 2 ^ Suc k"
      by (simp add: power_int_def field_simps nat_add_distrib)
    ultimately show ?thesis using e F by simp
  qed
qed

lemma ilog2_upper:
  assumes "0 < z"
  shows "z < 2 powi (ilog2 z + 1)"
proof (cases "1 \<le> z")
  case True
  define k where "k = nat (bitlen \<lfloor>z\<rfloor> - 1)"
  note B = floor_bitlen_bounds[OF True, folded k_def]
  have "ilog2 z = int k" using True B(3) by (simp add: ilog2_def)
  moreover have "2 powi (int k + 1) = (2::rat) ^ Suc k"
    by (simp add: power_int_add)
  ultimately show ?thesis using B(2) by simp
next
  case False
  define t where "t = 1 / z"
  define k where "k = nat (bitlen \<lfloor>t\<rfloor> - 1)"
  have t1: "1 \<le> t" using False assms by (simp add: t_def)
  note B = floor_bitlen_bounds[OF t1, folded k_def]
  have zt: "z = 1 / t" using assms by (simp add: t_def)
  have e: "ilog2 z = (if z * 2 ^ k = 1 then - int k else - int k - 1)"
    using False B(3) by (simp add: ilog2_def t_def[symmetric] Let_def)
  have "0 < t" using t1 by simp
  then have "1 / t \<le> 1 / 2 ^ k" using B(1) by (intro divide_left_mono) simp_all
  then have zle: "z \<le> 1 / 2 ^ k" using zt by simp
  show ?thesis
  proof (cases "z * 2 ^ k = 1")
    case True
    then have "z = 1 / 2 ^ k" by (simp add: field_simps)
    moreover have "2 powi (- int k + 1) = 2 powi (- int k) * (2::rat) powi 1"
      by (rule power_int_add) simp
    then have "2 powi (- int k + 1) = (2::rat) / 2 ^ k"
      by (simp add: power_int_minus field_simps)
    moreover have "(1::rat) / 2 ^ k < 2 / 2 ^ k"
      by (rule divide_strict_right_mono) simp_all
    ultimately show ?thesis using e True by simp
  next
    case F: False
    then have "z \<noteq> 1 / 2 ^ k" by (auto simp: field_simps)
    with zle have "z < 1 / 2 ^ k" by simp
    moreover have "2 powi (- int k - 1 + 1) = (1::rat) / 2 ^ k"
      by (simp add: power_int_minus field_simps)
    ultimately show ?thesis using e F by simp
  qed
qed

lemma py_round_error: "\<bar>of_int (py_round q) - q\<bar> \<le> 1 / 2"
proof -
  have "of_int \<lfloor>q\<rfloor> \<le> q" "q < of_int \<lfloor>q\<rfloor> + 1" by linarith+
  then show ?thesis
    by (auto simp: py_round_def Let_def abs_le_iff)
qed

lemma py_round_of_int [simp]: "py_round (of_int n) = n"
  by (simp add: py_round_def)

lemma fl_error:
  assumes "z \<noteq> 0"
  shows "\<bar>fl z - z\<bar> \<le> \<bar>z\<bar> / 2 ^ 53"
proof -
  define e where "e = ilog2 \<bar>z\<bar>"
  define u :: rat where "u = 2 powi (e - 52)"
  define m where "m = \<bar>z\<bar> / u"
  have az: "0 < \<bar>z\<bar>" using assms by simp
  have u0: "0 < u" by (simp add: u_def)
  have lo: "2 powi e \<le> \<bar>z\<bar>" unfolding e_def by (rule ilog2_lower[OF az])
  have ue: "u * 2 ^ 52 = 2 powi e"
    by (simp add: u_def power_int_diff)
  have f: "fl z = sgn z * of_int (py_round m) * u"
    using assms by (simp add: fl_def Let_def e_def u_def m_def)
  have zm: "z = sgn z * m * u"
    using u0 by (simp add: m_def mult_sgn_abs)
  have "fl z - z = sgn z * (of_int (py_round m) - m) * u"
    by (subst zm, subst f) (simp add: algebra_simps)
  then have "\<bar>fl z - z\<bar> = \<bar>of_int (py_round m) - m\<bar> * u"
    using u0 assms by (simp add: abs_mult abs_sgn_eq)
  also have "\<dots> \<le> (1 / 2) * u"
    using py_round_error[of m] u0 by (intro mult_right_mono) simp_all
  also have "\<dots> = 2 powi e / 2 ^ 53"
    using ue[symmetric] by simp
  also have "\<dots> \<le> \<bar>z\<bar> / 2 ^ 53"
    using lo by (simp add: divide_right_mono)
  finally show ?thesis .
qed

lemma fl_pos:
  assumes "0 < z"
  shows "0 < fl z"
proof -
  define d where "d = z / 2 ^ 53"
  have "\<bar>fl z - z\<bar> \<le> d" using fl_error[of z] assms by (simp add: d_def)
  moreover have "d < z" using assms by (simp add: d_def field_simps)
  ultimately show ?thesis by linarith
qed

section \<open>Coordinate scaling\<close>

lemma select_target_cases: "select_target w h \<in> {XGA, WXGA, FWXGA}"
  by (simp add: select_target_def MAX_SCALING_TARGETS_def split: option.splits)

lemma select_target_pos: "0 < width (select_target w h)" "0 < height (select_target w h)"
  using select_target_cases[of w h] by (auto simp: XGA_def WXGA_def FWXGA_def)

lemma truediv_pos: "0 < a \<Longrightarrow> 0 < b \<Longrightarrow> 0 < truediv a b"
  unfolding truediv_def by (rule fl_pos) simp

text \<open>
  C10.  With scaling disabled, \<open>scale_coordinates\<close> returns its input unchanged, in both
  directions and whatever the coordinates are.  For a resolution of positive width and
  height, it raises the out-of-bounds error exactly when scaling is enabled, the source is
  \<open>API\<close>, and \<open>x\<close> exceeds the native width or \<open>y\<close> the native height.
\<close>

theorem scale_coordinates_out_of_bounds_iff:
  assumes "0 < self_width self" and "0 < self_height self"
  shows "(\<not> scaling_enabled self \<longrightarrow> scale_coordinates self source x y = (Inr (x, y), self)) \<and>
         (out_of_bounds (scale_coordinates self source x y) \<longleftrightarrow>
            scaling_enabled self \<and> source = API \<and> (self_width self < x \<or> self_height self < y))"
proof -
  let ?t = "select_target (self_width self) (self_height self)"
  have "0 < truediv (width ?t) (self_width self)" "0 < truediv (height ?t) (self_height self)"
    using assms select_target_pos by (simp_all add: truediv_pos)
  then show ?thesis
    using assms by (auto simp: scale_coordinates_def Let_def out_of_bounds_def)
qed

theorem scale_coordinates_out_of_bounds_iff_witness:
  "0 < self_width ((monitor_tool 1920 1080)\<lparr>scaling_enabled := False\<rparr>) \<and>
   0 < self_height ((monitor_tool 1920 1080)\<lparr>scaling_enabled := False\<rparr>) \<and>
   \<not> scaling_enabled ((monitor_tool 1920 1080)\<lparr>scaling_enabled := False\<rparr>) \<and>
   scale_coordinates ((monitor_tool 1920 1080)\<lparr>scaling_enabled := False\<rparr>) API 5000 5000 =
     (Inr (5000, 5000), (monitor_tool 1920 1080)\<lparr>scaling_enabled := False\<rparr>) \<and>
   \<not> out_of_bounds
       (scale_coordinates ((monitor_tool 1920 1080)\<lparr>scaling_enabled := False\<rparr>) API 5000 5000)"
proof -
  let ?T = "(monitor_tool 1920 1080)\<lparr>scaling_enabled := False\<rparr>"
  have h: "0 < self_width ?T" "0 < self_height ?T" "\<not> scaling_enabled ?T"
    by (simp_all add: monitor_tool_def new_tool_def monitor_screen_def)
  from scale_coordinates_out_of_bounds_iff[OF h(1,2), of API 5000 5000] h
  show ?thesis by (simp add: out_of_bounds_def)
qed

section \<open>The dispatcher\<close>

text \<open>
  C2.  The claim expects \<open>right_click\<close>, \<open>middle_click\<close> and \<open>double_click\<close> to succeed on the
  native backend.  The three \<open>raise\<close> statements are not guarded by a test of the backend:
  on a tool bound to a native monitor, whatever the platform does, each of the three
  actions raises the error whose message says it is not supported for ADB devices, and
  nothing is injected.
\<close>

theorem click_variants_raise_on_native_backend:
  "call e (monitor_tool 1920 1080) ''right_click'' None None =
     (Inl (ToolError (NotSupportedForADB ''right_click'')), monitor_tool 1920 1080) \<and>
   call e (monitor_tool 1920 1080) ''middle_click'' None None =
     (Inl (ToolError (NotSupportedForADB ''middle_click'')), monitor_tool 1920 1080) \<and>
   call e (monitor_tool 1920 1080) ''double_click'' None None =
     (Inl (ToolError (NotSupportedForADB ''double_click'')), monitor_tool 1920 1080)"
  by (simp add: call_def click_def)

text \<open>
  C6.  A \<open>left_click_drag\<close> to \<open>(100, 200)\<close> on a remote device of 1280 by 800, freshly
  constructed, with a platform on which no call raises: the swipe goes from \<open>(0, 0)\<close> to the
  target and the tracked pointer is updated, but the action then raises
  \<open>UnboundLocalError\<close> in place of returning a confirmation, because the result is
  formatted from \<open>current_x\<close>, which only the native branch assigns.
\<close>

theorem adb_drag_raises_after_swipe:
  "call quiet_env (adb_tool ''emulator-5554'' 1280 800) ''left_click_drag'' None
       (Some (Seq [PyInt 100, PyInt 200])) =
     (Inl (UnboundLocalError ''current_x''),
      (adb_tool ''emulator-5554'' 1280 800)
        \<lparr>adb_mouse := (100, 200), target_dimension := Some WXGA,
         backend_log := [AdbSwipe 0 0 100 200]\<rparr>)"
  by code_simp

section \<open>Display enumeration\<close>

text \<open>
  C9.  The claim expects an unreachable device endpoint to count as zero remote devices.
  \<open>get_screen_details\<close> has no handler around \<open>adb.device_list()\<close>: when that call raises,
  the enumeration raises the same error, whatever the native monitors are.
\<close>

theorem enumeration_fails_when_adb_fails:
  "get_screen_details (Inr screens) (Inl err) = Inl err"
  by (simp add: get_screen_details_def split: prod.splits)

lemma invoke_no_argument_error: "\<not> raises_argument_error (invoke e c self)"
  by (simp add: invoke_def raises_argument_error_def)

lemma invoke_cases:
  "invoke e c self = (Inl (Failure c), self) \<or>
   invoke e c self = (Inr (), self\<lparr>backend_log := backend_log self @ [c]\<rparr>)"
  by (simp add: invoke_def)

lemma invoke_all_error: "invoke_all e cs self = (Inl err, self') \<Longrightarrow> \<exists>c. err = Failure c"
proof (induction cs arbitrary: self)
  case Nil
  then show ?case by simp
next
  case (Cons c cs)
  then show ?case
    using invoke_cases[of e c self] by (auto split: prod.splits sum.splits)
qed

lemma scale_coordinates_no_argument_error:
  "\<not> raises_argument_error (scale_coordinates self source x y)"
  by (simp add: scale_coordinates_def raises_argument_error_def argument_error_def Let_def)

lemma screenshot_no_argument_error: "\<not> raises_argument_error (screenshot e self)"
  using invoke_cases[of e AdbScreenshot self] invoke_cases[of e Grab self]
  by (auto simp: screenshot_def raises_argument_error_def argument_error_def Let_def
           split: option.splits)

lemma invoke_all_no_argument_error: "\<not> raises_argument_error (invoke_all e cs self)"
proof (cases "invoke_all e cs self")
  case (Pair r self')
  then show ?thesis
    using invoke_all_error[of e cs self _ self']
    by (cases r) (auto simp: raises_argument_error_def)
qed

lemma move_or_drag_no_argument_error: "\<not> raises_argument_error (move_or_drag e self action x y)"
  unfolding move_or_drag_def raises_argument_error_def result_def Let_def
  by (auto simp: invoke_def split: prod.splits sum.splits error.splits)

lemma press_keys_no_argument_error: "\<not> raises_argument_error (press_keys e self text)"
proof -
  have a: "\<And>cs s r s'. invoke_all e cs s = (r, s') \<Longrightarrow> \<not> raises_argument_error (r, s')"
    using invoke_all_no_argument_error by metis
  show ?thesis
    unfolding press_keys_def Let_def
    by (auto simp: result_def raises_argument_error_def dest!: a split: prod.splits sum.splits)
qed

lemma type_text_no_argument_error: "\<not> raises_argument_error (type_text e self text)"
proof -
  have a: "\<And>s r s'. screenshot e s = (r, s') \<Longrightarrow> \<not> raises_argument_error (r, s')"
    using screenshot_no_argument_error by metis
  show ?thesis
    unfolding type_text_def
    by (auto simp: invoke_def raises_argument_error_def dest!: a split: prod.splits sum.splits)
qed

lemma cursor_position_no_argument_error: "\<not> raises_argument_error (cursor_position e self)"
proof -
  have a: "\<And>s src x y r s'. scale_coordinates s src x y = (r, s')
             \<Longrightarrow> \<not> raises_argument_error (r, s')"
    using scale_coordinates_no_argument_error by metis
  show ?thesis
    unfolding cursor_position_def
    by (auto simp: invoke_def result_def raises_argument_error_def dest!: a
             split: prod.splits sum.splits)
qed

lemma click_no_argument_error: "\<not> raises_argument_error (click e self action)"
  unfolding click_def
  by (auto simp: invoke_def result_def raises_argument_error_def argument_error_def
           split: prod.splits sum.splits)

lemma call_argument_error_unchanged:
  assumes "raises_argument_error (call e self action text coordinate)"
  shows "snd (call e self action text coordinate) = self"
proof -
  have a: "\<And>s src x y r s'. scale_coordinates s src x y = (r, s')
             \<Longrightarrow> \<not> raises_argument_error (r, s')"
    using scale_coordinates_no_argument_error by metis
  have b: "\<And>err s'. raises_argument_error (Inl err :: error + ToolResult, s')
             \<longleftrightarrow> raises_argument_error (Inl err :: error + int \<times> int, s')"
    by (simp add: raises_argument_error_def)
  note helpers = move_or_drag_no_argument_error press_keys_no_argument_error
    type_text_no_argument_error cursor_position_no_argument_error click_no_argument_error
    screenshot_no_argument_error
  show ?thesis
    using assms unfolding call_def
    by (auto simp: helpers b dest!: a split: option.splits coord.splits prod.splits sum.splits if_splits)
qed

text \<open>
  C7.  \<open>mouse_move\<close> without a coordinate is rejected with the argument error that names
  the coordinate, \<open>left_click\<close> with a coordinate is rejected with an argument error, and
  \<open>screenshot\<close> with neither field passes the checks: the call is the capture.  Whenever
  \<open>__call__\<close> raises an argument error, the tool is exactly as before the call: no library
  call was made, and the tracked pointer, the offsets and the target are unchanged.
\<close>

theorem validation_precedes_backend:
  "call e self ''mouse_move'' text None =
     (Inl (ToolError (CoordinateRequired ''mouse_move'')), self) \<and>
   (\<exists>m. argument_error m \<and>
        call e self ''left_click'' text (Some c) = (Inl (ToolError m), self)) \<and>
   call e self ''screenshot'' None None = screenshot e self \<and>
   \<not> raises_argument_error (call e self ''screenshot'' None None) \<and>
   (raises_argument_error (call e self action text' coordinate) \<longrightarrow>
      snd (call e self action text' coordinate) = self)"
proof -
  have 1: "call e self ''mouse_move'' text None =
     (Inl (ToolError (CoordinateRequired ''mouse_move'')), self)"
    by (simp add: call_def)
  have 2: "\<exists>m. argument_error m \<and>
        call e self ''left_click'' text (Some c) = (Inl (ToolError m), self)"
    by (cases "text") (simp_all add: call_def argument_error_def)
  have 3: "call e self ''screenshot'' None None = screenshot e self"
    by (simp add: call_def)
  show ?thesis
    using 1 2 3 screenshot_no_argument_error[of e self] call_argument_error_unchanged
    by simp
qed

theorem validation_precedes_backend_witness:
  "raises_argument_error
     (call quiet_env (monitor_tool 1920 1080) ''left_click_drag'' (Some ''x'')
        (Some (Seq [PyInt 1, PyInt 2]))) \<and>
   snd (call quiet_env (monitor_tool 1920 1080) ''left_click_drag'' (Some ''x'')
          (Some (Seq [PyInt 1, PyInt 2]))) = monitor_tool 1920 1080"
proof -
  have h: "raises_argument_error
     (call quiet_env (monitor_tool 1920 1080) ''left_click_drag'' (Some ''x'')
        (Some (Seq [PyInt 1, PyInt 2])))"
    by (simp add: call_def raises_argument_error_def argument_error_def)
  from validation_precedes_backend
         [where e = quiet_env and self = "monitor_tool 1920 1080"
            and action = "''left_click_drag''" and text' = "Some ''x''"
            and coordinate = "Some (Seq [PyInt 1, PyInt 2])"] h
  show ?thesis by blast
qed

lemma adb_loop_extends:
  "adb_loop ds acc = Inr r \<Longrightarrow> \<exists>extra. r = acc @ extra \<and> (\<forall>s \<in> set extra. screen_type s = ADB)"
proof (induction ds arbitrary: acc)
  case Nil
  then show ?case by simp
next
  case (Cons d ds)
  then show ?case by (fastforce split: sum.splits prod.splits)
qed

lemma length3_cases: "length xs = 3 \<Longrightarrow> \<exists>a b c. xs = [a, b, c]"
  by (auto simp: length_Suc_conv numeral_3_eq_3)

lemma get_screen_details_one:
  assumes "get_screen_details (Inr [m]) devices = Inr (details, primary_index)"
  shows "take 1 details = [monitor_entry 0 m ''Left''] \<and> primary_index = 0 \<and>
         (\<forall>s \<in> set (drop 1 details). screen_type s = ADB)"
proof -
  from assms obtain ds where d: "devices = Inr ds"
    and a: "adb_loop ds [monitor_entry 0 m ''Left''] = Inr details" and p: "primary_index = 0"
    by (auto simp: get_screen_details_def monitor_entry_def split: sum.splits if_splits)
  from adb_loop_extends[OF a] p show ?thesis by auto
qed

lemma get_screen_details_three:
  assumes "get_screen_details (Inr screens) devices = Inr (details, primary_index)"
    and "length screens = 3"
  shows "take 3 details =
           [monitor_entry 0 (sort_key mon_x screens ! 0) ''Left'',
            monitor_entry 1 (sort_key mon_x screens ! 1) ''Center'',
            monitor_entry 2 (sort_key mon_x screens ! 2) ''Right''] \<and>
         (\<forall>s \<in> set (drop 3 details). screen_type s = ADB)"
proof -
  have "length (sort_key mon_x screens) = 3" using assms(2) by simp
  then obtain a b c where s: "sort_key mon_x screens = [a, b, c]"
    using length3_cases by blast
  from assms(1) obtain ds where d: "devices = Inr ds"
    and l: "adb_loop ds [monitor_entry 0 a ''Left'', monitor_entry 1 b ''Center'',
                         monitor_entry 2 c ''Right''] = Inr details"
    by (auto simp: get_screen_details_def s monitor_entry_def split: sum.splits if_splits)
  from adb_loop_extends[OF l] show ?thesis by (auto simp: s)
qed

text \<open>
  C8, as stated, fails where the platform does not flag the only monitor as primary (as
  \<open>screeninfo\<close> does on several back ends): the single entry has layout \<open>Left\<close> but is
  marked \<open>Secondary\<close>; only the returned primary index, 0, points at it.
\<close>

theorem single_monitor_marked_secondary:
  "get_screen_details (Inr [example_monitor 0 False]) (Inr []) =
     Inr ([\<lparr>index = 0, name = None, screen_type = MONITOR,
            screen_size = \<lparr>width = 1920, height = 1080\<rparr>,
            layout = Some ''Left'', position = Some ''Secondary''\<rparr>], 0)"
  by (simp add: get_screen_details_def example_monitor_def)

text \<open>
  C8, amended.  Whenever the enumeration returns: with exactly one native monitor, the
  first entry is that monitor with index 0 and layout \<open>Left\<close>, marked \<open>Primary\<close> exactly
  when the platform reports it as primary, the returned primary index is 0, and every
  further entry is a remote device; with three native monitors, the first three entries
  are the monitors in ascending order of horizontal position (the order given, when that
  is ascending already), with indices 0, 1, 2 and layouts \<open>Left\<close>, \<open>Center\<close>, \<open>Right\<close>, and
  every further entry is a remote device.
\<close>

theorem native_entries_of_enumeration:
  assumes "get_screen_details (Inr screens) devices = Inr (details, primary_index)"
  shows "(\<forall>m. screens = [m] \<longrightarrow>
            take 1 details = [monitor_entry 0 m ''Left''] \<and> primary_index = 0 \<and>
            (\<forall>s \<in> set (drop 1 details). screen_type s = ADB)) \<and>
         (length screens = 3 \<longrightarrow>
            take 3 details =
              [monitor_entry 0 (sort_key mon_x screens ! 0) ''Left'',
               monitor_entry 1 (sort_key mon_x screens ! 1) ''Center'',
               monitor_entry 2 (sort_key mon_x screens ! 2) ''Right''] \<and>
            (\<forall>s \<in> set (drop 3 details). screen_type s = ADB) \<and>
            (sorted (map mon_x screens) \<longrightarrow> sort_key mon_x screens = screens))"
  using get_screen_details_one[of _ devices details primary_index]
    get_screen_details_three[OF assms] assms sort_key_id_if_sorted[of mon_x screens]
  by blast

theorem native_entries_of_enumeration_witness:
  "get_screen_details (Inr [example_monitor 0 True]) (Inr []) =
     Inr ([monitor_entry 0 (example_monitor 0 True) ''Left''], 0) \<and>
   take 1 [monitor_entry 0 (example_monitor 0 True) ''Left''] =
     [monitor_entry 0 (example_monitor 0 True) ''Left''] \<and>
   get_screen_details
      (Inr [example_monitor 3840 False, example_monitor 0 False, example_monitor 1920 True])
      (Inr []) =
     Inr ([monitor_entry 0 (example_monitor 0 False) ''Left'',
           monitor_entry 1 (example_monitor 1920 True) ''Center'',
           monitor_entry 2 (example_monitor 3840 False) ''Right''], 1) \<and>
   length [example_monitor 3840 False, example_monitor 0 False, example_monitor 1920 True] = 3 \<and>
   map layout
     (take 3 [monitor_entry 0 (example_monitor 0 False) ''Left'',
              monitor_entry 1 (example_monitor 1920 True) ''Center'',
              monitor_entry 2 (example_monitor 3840 False) ''Right'']) =
     [Some ''Left'', Some ''Center'', Some ''Right'']"
proof -
  have one: "get_screen_details (Inr [example_monitor 0 True]) (Inr []) =
     Inr ([monitor_entry 0 (example_monitor 0 True) ''Left''], 0)"
    by (simp add: get_screen_details_def example_monitor_def monitor_entry_def)
  have three: "get_screen_details
      (Inr [example_monitor 3840 False, example_monitor 0 False, example_monitor 1920 True])
      (Inr []) =
     Inr ([monitor_entry 0 (example_monitor 0 False) ''Left'',
           monitor_entry 1 (example_monitor 1920 True) ''Center'',
           monitor_entry 2 (example_monitor 3840 False) ''Right''], 1)"
    by (simp add: get_screen_details_def example_monitor_def monitor_entry_def)
  from native_entries_of_enumeration[OF one] native_entries_of_enumeration[OF three] one three
  show ?thesis by (simp add: monitor_entry_def)
qed

section \<open>Key combinations\<close>

lemma invoke_all_fails_at:
  assumes "n < length cs"
    and "\<forall>i<n. \<not> fails e (backend_log self @ take i cs) (cs ! i)"
    and "fails e (backend_log self @ take n cs) (cs ! n)"
  shows "invoke_all e cs self =
           (Inl (Failure (cs ! n)), self\<lparr>backend_log := backend_log self @ take n cs\<rparr>)"
  using assms
proof (induction cs arbitrary: n self)
  case Nil
  then show ?case by simp
next
  case (Cons c cs)
  show ?case
  proof (cases n)
    case 0
    with Cons.prems show ?thesis by (simp add: invoke_def)
  next
    case (Suc k)
    let ?s = "self\<lparr>backend_log := backend_log self @ [c]\<rparr>"
    from Cons.prems(2) Suc have c: "\<not> fails e (backend_log self) c" by force
    have 1: "k < length cs" using Cons.prems(1) Suc by simp
    have 2: "\<forall>i<k. \<not> fails e (backend_log ?s @ take i cs) (cs ! i)"
    proof (intro allI impI)
      fix i assume "i < k"
      then have "Suc i < n" using Suc by simp
      with Cons.prems(2) have "\<not> fails e (backend_log self @ take (Suc i) (c # cs)) ((c # cs) ! Suc i)"
        by blast
      then show "\<not> fails e (backend_log ?s @ take i cs) (cs ! i)" by simp
    qed
    have 3: "fails e (backend_log ?s @ take k cs) (cs ! k)"
      using Cons.prems(3) Suc by simp
    from Cons.IH[OF 1 2 3] c Suc show ?thesis by (simp add: invoke_def)
  qed
qed

lemma invoke_all_succeeds:
  assumes "\<forall>calls c. \<not> fails e calls c"
  shows "invoke_all e cs self = (Inr (), self\<lparr>backend_log := backend_log self @ cs\<rparr>)"
  using assms by (induction cs arbitrary: self) (simp_all add: invoke_def)


text \<open>
  C4, as stated, fails.  With \<open>ctrl+shift+t\<close> on the native backend and a platform on which
  pressing \<open>shift\<close> raises, the action raises that failure after the key-down of \<open>ctrl\<close>
  and issues no key-up: \<open>ctrl\<close> is still held.
\<close>

theorem pressed_key_stays_held:
  "call shift_fails (monitor_tool 1920 1080) ''key'' (Some ''ctrl+shift+t'') None =
     (Inl (Failure (KeyDown ''shift'')),
      (monitor_tool 1920 1080)\<lparr>backend_log := [KeyDown ''ctrl'']\<rparr>) \<and>
   held_keys [KeyDown ''ctrl''] = [''ctrl'']"
  by code_simp

text \<open>
  C4, amended.  On the native backend the \<open>key\<close> action presses the keys of the combination
  in order.  When the key-down of the key at position \<open>n\<close> raises after the earlier ones
  completed, the action raises that failure at once, having issued exactly the \<open>n\<close> earlier
  key-downs and no key-up.  When no library call raises, it issues every key-down, then
  the key-ups in reverse order, and returns its confirmation.
\<close>

theorem key_combination_on_native_backend:
  assumes "adb_device self = None"
  shows "(n < length (key_downs text) \<and>
          (\<forall>i<n. \<not> fails e (backend_log self @ take i (key_downs text)) (key_downs text ! i)) \<and>
          fails e (backend_log self @ take n (key_downs text)) (key_downs text ! n) \<longrightarrow>
            call e self ''key'' (Some text) None =
              (Inl (Failure (key_downs text ! n)),
               self\<lparr>backend_log := backend_log self @ take n (key_downs text)\<rparr>)) \<and>
         ((\<forall>calls c. \<not> fails e calls c) \<longrightarrow>
            call e self ''key'' (Some text) None =
              (result (PressedKeys text),
               self\<lparr>backend_log := backend_log self @ key_downs text @ key_ups text\<rparr>))"
proof (intro conjI impI)
  assume a: "n < length (key_downs text) \<and>
          (\<forall>i<n. \<not> fails e (backend_log self @ take i (key_downs text)) (key_downs text ! i)) \<and>
          fails e (backend_log self @ take n (key_downs text)) (key_downs text ! n)"
  then have "invoke_all e (key_downs text) self =
      (Inl (Failure (key_downs text ! n)),
       self\<lparr>backend_log := backend_log self @ take n (key_downs text)\<rparr>)"
    by (intro invoke_all_fails_at) simp_all
  then show "call e self ''key'' (Some text) None =
      (Inl (Failure (key_downs text ! n)),
       self\<lparr>backend_log := backend_log self @ take n (key_downs text)\<rparr>)"
    using assms by (simp add: call_def press_keys_def key_downs_def Let_def)
next
  assume a: "\<forall>calls c. \<not> fails e calls c"
  note ok = invoke_all_succeeds[OF a]
  show "call e self ''key'' (Some text) None =
      (result (PressedKeys text),
       self\<lparr>backend_log := backend_log self @ key_downs text @ key_ups text\<rparr>)"
    using assms
    by (simp add: call_def press_keys_def key_downs_def key_ups_def Let_def ok)
qed

theorem key_combination_on_native_backend_witness:
  "adb_device (monitor_tool 1920 1080) = None \<and>
   1 < length (key_downs ''ctrl+shift+t'') \<and>
   \<not> fails shift_fails (backend_log (monitor_tool 1920 1080)) (key_downs ''ctrl+shift+t'' ! 0) \<and>
   fails shift_fails
     (backend_log (monitor_tool 1920 1080) @ take 1 (key_downs ''ctrl+shift+t''))
     (key_downs ''ctrl+shift+t'' ! 1) \<and>
   call shift_fails (monitor_tool 1920 1080) ''key'' (Some ''ctrl+shift+t'') None =
     (Inl (Failure (key_downs ''ctrl+shift+t'' ! 1)),
      (monitor_tool 1920 1080)
        \<lparr>backend_log := backend_log (monitor_tool 1920 1080) @
                          take 1 (key_downs ''ctrl+shift+t'')\<rparr>) \<and>
   (\<forall>calls c. \<not> fails quiet_env calls c) \<and>
   call quiet_env (monitor_tool 1920 1080) ''key'' (Some ''ctrl+shift+t'') None =
     (result (PressedKeys ''ctrl+shift+t''),
      (monitor_tool 1920 1080)
        \<lparr>backend_log := backend_log (monitor_tool 1920 1080) @
                          key_downs ''ctrl+shift+t'' @ key_ups ''ctrl+shift+t''\<rparr>)"
proof -
  let ?T = "monitor_tool 1920 1080"
  let ?k = "key_downs ''ctrl+shift+t''"
  have kd: "?k = [KeyDown ''ctrl'', KeyDown ''shift'', KeyDown ''t'']"
    by code_simp
  have h0: "adb_device ?T = None"
    by (simp add: monitor_tool_def new_tool_def)
  have h1: "1 < length ?k" "\<not> fails shift_fails (backend_log ?T) (?k ! 0)"
    "fails shift_fails (backend_log ?T @ take 1 ?k) (?k ! 1)"
    by (simp_all add: kd shift_fails_def quiet_env_def)
  have h2: "\<forall>i<1. \<not> fails shift_fails (backend_log ?T @ take i ?k) (?k ! i)"
    using h1(2) by simp
  have h3: "\<forall>calls c. \<not> fails quiet_env calls c"
    by (simp add: quiet_env_def)
  from key_combination_on_native_backend[OF h0, of 1 "''ctrl+shift+t''" shift_fails]
    key_combination_on_native_backend[OF h0, of 0 "''ctrl+shift+t''" quiet_env]
    h0 h1 h2 h3
  show ?thesis by blast
qed

section \<open>The bounds check of the conversion to native coordinates\<close>

text \<open>
  C5, as stated, fails.  On a monitor of 1920 by 1080 the target is 1366 by 768; the
  actor's coordinate \<open>(1400, 700)\<close> passes the check, which compares it with the native
  size, and converts to \<open>(1968, 984)\<close>: a native coordinate beyond the native width, and
  no error.
\<close>

theorem in_bounds_check_passes_out_of_range_result:
  "scale_coordinates (monitor_tool 1920 1080) API 1400 700 =
     (Inr (1968, 984), (monitor_tool 1920 1080)\<lparr>target_dimension := Some FWXGA\<rparr>) \<and>
   self_width (monitor_tool 1920 1080) < 1968"
  by code_simp

text \<open>
  C5, amended.  With scaling enabled and a resolution of positive width and height, the
  conversion of an actor's coordinate raises the out-of-bounds error when the coordinate
  itself exceeds the native width or height; the check is made on the input, before the
  division.  Otherwise the conversion succeeds, with each component divided by the scaling
  factor of its axis and rounded; in particular it succeeds at (width - 1, height - 1).
\<close>

theorem api_bounds_check:
  assumes "scaling_enabled self" and "0 < self_width self" and "0 < self_height self"
  shows "(self_width self < x \<or> self_height self < y \<longrightarrow>
            scale_coordinates self API x y =
              (Inl (ToolError (OutOfBounds x y)),
               self\<lparr>target_dimension :=
                       Some (select_target (self_width self) (self_height self))\<rparr>)) \<and>
         (x \<le> self_width self \<and> y \<le> self_height self \<longrightarrow>
            fst (scale_coordinates self API x y) =
              Inr (py_round (int_div_float x
                      (truediv (width (select_target (self_width self) (self_height self)))
                         (self_width self))),
                   py_round (int_div_float y
                      (truediv (height (select_target (self_width self) (self_height self)))
                         (self_height self))))) \<and>
         (\<exists>p. fst (scale_coordinates self API (self_width self - 1) (self_height self - 1)) =
                Inr p)"
proof -
  let ?t = "select_target (self_width self) (self_height self)"
  have "0 < truediv (width ?t) (self_width self)" "0 < truediv (height ?t) (self_height self)"
    using assms select_target_pos by (simp_all add: truediv_pos)
  then show ?thesis
    using assms by (auto simp: scale_coordinates_def Let_def)
qed

theorem api_bounds_check_witness:
  "scaling_enabled (monitor_tool 1920 1080) \<and>
   0 < self_width (monitor_tool 1920 1080) \<and> 0 < self_height (monitor_tool 1920 1080) \<and>
   (self_width (monitor_tool 1920 1080) < 2000 \<or> self_height (monitor_tool 1920 1080) < 5) \<and>
   out_of_bounds (scale_coordinates (monitor_tool 1920 1080) API 2000 5) \<and>
   1919 \<le> self_width (monitor_tool 1920 1080) \<and> 1079 \<le> self_height (monitor_tool 1920 1080) \<and>
   (\<exists>p. fst (scale_coordinates (monitor_tool 1920 1080) API 1919 1079) = Inr p)"
proof -
  let ?T = "monitor_tool 1920 1080"
  have h: "scaling_enabled ?T" "0 < self_width ?T" "0 < self_height ?T"
    "self_width ?T < 2000 \<or> self_height ?T < 5"
    "1919 \<le> self_width ?T \<and> 1079 \<le> self_height ?T"
    by (simp_all add: monitor_tool_def new_tool_def monitor_screen_def)
  from api_bounds_check[OF h(1,2,3), of 2000 5] h(4)
  have a: "out_of_bounds (scale_coordinates ?T API 2000 5)"
    by (simp add: out_of_bounds_def)
  from api_bounds_check[OF h(1,2,3), of 1919 1079] h(5)
  have b: "\<exists>p. fst (scale_coordinates ?T API 1919 1079) = Inr p"
    by blast
  from a b h show ?thesis by blast
qed

section \<open>The selection of the scaling target\<close>

lemma table_ratios:
  "truediv (width XGA) (height XGA) = 6004799503160661 / 4503599627370496"
  "truediv (width WXGA) (height WXGA) = 3602879701896397 / 2251799813685248"
  "truediv (width FWXGA) (height FWXGA) = 8010308712224085 / 4503599627370496"
  "fl (1 / 50) = 5764607523034235 / 288230376151711744"
  by code_simp+

lemma fl_small:
  assumes "\<bar>fl z\<bar> < fl (1 / 50)"
  shows "\<bar>z\<bar> < 1 / 40"
proof (cases "z = 0")
  case True
  then show ?thesis by simp
next
  case False
  define d where "d = \<bar>z\<bar> / 2 ^ 53"
  have 1: "\<bar>fl z - z\<bar> \<le> d" using fl_error[OF False] by (simp add: d_def)
  have 2: "d \<le> \<bar>z\<bar> / 8" by (simp add: d_def field_simps)
  have 3: "\<bar>fl z\<bar> < 1 / 48"
    using assms by (simp add: table_ratios(4))
  from 1 2 3 show ?thesis by linarith
qed

lemma aspect_matches_near:
  "aspect_matches ratio d \<Longrightarrow> \<bar>truediv (width d) (height d) - ratio\<bar> < 1 / 40"
  unfolding aspect_matches_def fsub_def by (rule fl_small)

lemma aspect_matches_unique:
  assumes "(n, d) \<in> set MAX_SCALING_TARGETS" and "(n', d') \<in> set MAX_SCALING_TARGETS"
    and "aspect_matches ratio d" and "aspect_matches ratio d'"
  shows "d = d'"
proof -
  let ?x = "6004799503160661 / 4503599627370496 :: rat"
  let ?w = "3602879701896397 / 2251799813685248 :: rat"
  let ?f = "8010308712224085 / 4503599627370496 :: rat"
  have apart: "\<not> (\<bar>?x - ratio\<bar> < 1 / 40 \<and> \<bar>?w - ratio\<bar> < 1 / 40)"
    "\<not> (\<bar>?x - ratio\<bar> < 1 / 40 \<and> \<bar>?f - ratio\<bar> < 1 / 40)"
    "\<not> (\<bar>?w - ratio\<bar> < 1 / 40 \<and> \<bar>?f - ratio\<bar> < 1 / 40)"
    by linarith+
  from assms(1,2) aspect_matches_near[OF assms(3)] aspect_matches_near[OF assms(4)] apart
  show ?thesis
    by (auto simp: MAX_SCALING_TARGETS_def table_ratios)
qed

text \<open>
  C1, as stated, fails where the native width equals the target's width.  A monitor of
  1024 by 768 has exactly the aspect ratio of XGA and is as wide as XGA, yet the target
  selected is the default WXGA: the loop ends at XGA without assigning it.
\<close>

theorem exact_aspect_equal_width_falls_back:
  "aspect_matches (truediv 1024 768) XGA \<and> width XGA \<le> 1024 \<and>
   select_target 1024 768 = WXGA \<and> WXGA \<noteq> XGA"
  by code_simp

text \<open>
  C1, amended.  At most one entry of the table matches the aspect ratio of a resolution.
  If an entry matches, the target selected is that entry when its width is strictly
  smaller than the native width, and the default WXGA otherwise; if no entry matches, it
  is WXGA.  With scaling enabled and a non-zero height, this is the target
  \<open>scale_coordinates\<close> leaves in the tool.
\<close>

theorem select_target_characterisation:
  "((n, d) \<in> set MAX_SCALING_TARGETS \<and> aspect_matches (truediv w h) d \<longrightarrow>
      select_target w h = (if width d < w then d else WXGA)) \<and>
   ((\<forall>(n, d) \<in> set MAX_SCALING_TARGETS. \<not> aspect_matches (truediv w h) d) \<longrightarrow>
      select_target w h = WXGA) \<and>
   (scaling_enabled self \<and> self_height self \<noteq> 0 \<longrightarrow>
      target_dimension (snd (scale_coordinates self source x y)) =
        Some (select_target (self_width self) (self_height self)))"
proof (intro conjI impI)
  assume a: "(n, d) \<in> set MAX_SCALING_TARGETS \<and> aspect_matches (truediv w h) d"
  have u: "\<And>n' d'. (n', d') \<in> set MAX_SCALING_TARGETS \<Longrightarrow> aspect_matches (truediv w h) d'
             \<Longrightarrow> d' = d"
    using a aspect_matches_unique by blast
  have m: "aspect_matches (truediv w h) XGA \<Longrightarrow> d = XGA"
    "aspect_matches (truediv w h) WXGA \<Longrightarrow> d = WXGA"
    "aspect_matches (truediv w h) FWXGA \<Longrightarrow> d = FWXGA"
    using u[of "''XGA''" XGA] u[of "''WXGA''" WXGA] u[of "''FWXGA''" FWXGA]
    by (simp_all add: MAX_SCALING_TARGETS_def)
  from a have "d = XGA \<or> d = WXGA \<or> d = FWXGA"
    by (auto simp: MAX_SCALING_TARGETS_def)
  with a m show "select_target w h = (if width d < w then d else WXGA)"
    by (auto simp: select_target_def MAX_SCALING_TARGETS_def)
next
  assume "\<forall>(n, d) \<in> set MAX_SCALING_TARGETS. \<not> aspect_matches (truediv w h) d"
  then show "select_target w h = WXGA"
    by (simp add: select_target_def MAX_SCALING_TARGETS_def)
next
  assume "scaling_enabled self \<and> self_height self \<noteq> 0"
  then show "target_dimension (snd (scale_coordinates self source x y)) =
        Some (select_target (self_width self) (self_height self))"
    by (simp add: scale_coordinates_def Let_def)
qed

theorem select_target_characterisation_witness:
  "(''FWXGA'', FWXGA) \<in> set MAX_SCALING_TARGETS \<and>
   aspect_matches (truediv 1920 1080) FWXGA \<and>
   select_target 1920 1080 = FWXGA \<and>
   \<not> aspect_matches (truediv 1000 1000) XGA \<and>
   \<not> aspect_matches (truediv 1000 1000) WXGA \<and>
   \<not> aspect_matches (truediv 1000 1000) FWXGA \<and>
   select_target 1000 1000 = WXGA \<and>
   scaling_enabled (monitor_tool 1920 1080) \<and> self_height (monitor_tool 1920 1080) \<noteq> 0 \<and>
   target_dimension (snd (scale_coordinates (monitor_tool 1920 1080) COMPUTER 0 0)) =
     Some (select_target (self_width (monitor_tool 1920 1080))
             (self_height (monitor_tool 1920 1080)))"
proof -
  have h1: "(''FWXGA'', FWXGA) \<in> set MAX_SCALING_TARGETS"
    by (simp add: MAX_SCALING_TARGETS_def)
  have h2: "aspect_matches (truediv 1920 1080) FWXGA"
    by code_simp
  have h5: "\<not> aspect_matches (truediv 1000 1000) XGA"
    "\<not> aspect_matches (truediv 1000 1000) WXGA"
    "\<not> aspect_matches (truediv 1000 1000) FWXGA"
    by code_simp+
  then have h3: "\<forall>(n, d) \<in> set MAX_SCALING_TARGETS. \<not> aspect_matches (truediv 1000 1000) d"
    by (simp add: MAX_SCALING_TARGETS_def)
  have h4: "scaling_enabled (monitor_tool 1920 1080) \<and> self_height (monitor_tool 1920 1080) \<noteq> 0"
    by (simp add: monitor_tool_def new_tool_def monitor_screen_def)
  have w: "width FWXGA < 1920" by (simp add: FWXGA_def)
  from select_target_characterisation
         [where n = "''FWXGA''" and d = FWXGA and w = 1920 and h = 1080
            and self = "monitor_tool 1920 1080" and source = COMPUTER and x = 0 and y = 0]
       h1 h2 h4 w
  have a: "select_target 1920 1080 = FWXGA"
    "target_dimension (snd (scale_coordinates (monitor_tool 1920 1080) COMPUTER 0 0)) =
       Some (select_target (self_width (monitor_tool 1920 1080))
               (self_height (monitor_tool 1920 1080)))"
    by simp_all
  from select_target_characterisation[where w = 1000 and h = 1000] h3
  have b: "select_target 1000 1000 = WXGA" by blast
  from a b h1 h2 h4 h5 show ?thesis by blast
qed

end
